theory Spec2Isabelle
  imports Complex_Main "HOL-Library.Sublist" "HOL-Library.Multiset"
begin

section \<open>Strings\<close>

text \<open>
  JavaScript strings are modelled as \<^typ>\<open>string\<close>. The three string operations the
  engine uses are \<^verbatim>\<open>toLowerCase\<close>, \<^verbatim>\<open>includes\<close> and
  \<^verbatim>\<open>split(' ')[0]\<close>; \<^verbatim>\<open>replace('_', ' ')\<close> (first occurrence only) is used once.
  Lower-casing is modelled on the ASCII letters; no theorem below depends on what it does to
  any other character.
\<close>

definition toLowerChar :: "char \<Rightarrow> char" where
  "toLowerChar c =
     (let n = (of_char c :: nat) in if 65 \<le> n \<and> n \<le> 90 then char_of (n + 32) else c)"

definition toLowerCase :: "string \<Rightarrow> string" where
  "toLowerCase s = map toLowerChar s"

text \<open>\<^verbatim>\<open>s.includes(t)\<close>: \<open>t\<close> occurs in \<open>s\<close> as a contiguous substring.\<close>

fun str_includes :: "string \<Rightarrow> string \<Rightarrow> bool" where
  "str_includes [] t = (t = [])"
| "str_includes (c # cs) t = (prefix t (c # cs) \<or> str_includes cs t)"

text \<open>\<^verbatim>\<open>s.split(' ')[0]\<close>: the text before the first blank (all of \<open>s\<close> without one).\<close>

definition firstWord :: "string \<Rightarrow> string" where
  "firstWord s = takeWhile (\<lambda>c. c \<noteq> CHR '' '') s"

text \<open>\<^verbatim>\<open>s.replace('_', ' ')\<close> with a string pattern replaces the first occurrence only.\<close>

fun replaceUnderscore :: "string \<Rightarrow> string" where
  "replaceUnderscore [] = []"
| "replaceUnderscore (c # cs) = (if c = CHR ''_'' then CHR '' '' # cs else c # replaceUnderscore cs)"

section \<open>Data model (src/types/index.ts)\<close>

text \<open>
  \<^verbatim>\<open>DietaryOption\<close> and \<^verbatim>\<open>Restaurant\<close>. Dietary tags are the strings of the
  TypeScript union \<^verbatim>\<open>DietaryRestrictionType\<close>; at run time they are plain strings and are
  compared with \<^verbatim>\<open>===\<close>. The fields of \<^verbatim>\<open>Restaurant\<close> that no function below
  reads (location, photos, openingHours, reviews, reservationUrl, menuUrl) are left out.
  Numbers that hold integers in the code (price tier, scores) are \<^typ>\<open>int\<close>; the rating is
  a \<^typ>\<open>rat\<close>.
\<close>

record DietaryOption =
  otype :: string
  available :: bool
  onotes :: "string option"

record Restaurant =
  rid :: string
  name :: string
  address :: string
  phone :: "string option"
  website :: "string option"
  rating :: rat
  priceLevel :: int
  cuisine :: "string list"
  dietaryOptions :: "DietaryOption list"

text \<open>
  \<^verbatim>\<open>GeneratedRestaurantData\<close> (src/generators/restaurant-generator.ts), together with the
  two optional fields that \<^verbatim>\<open>searchRestaurants\<close> reads through \<^verbatim>\<open>data as any\<close>.
\<close>

record GeneratedRestaurantData =
  restaurant :: Restaurant
  generatedFields :: "string list"
  confidence :: int
  popularDishes :: "string list option"
  specialFeatures :: "string list option"

text \<open>The argument \<^verbatim>\<open>filters\<close> of \<^verbatim>\<open>searchRestaurants\<close>; every field is optional.\<close>

record SearchFilters =
  filter_cuisine :: "string option"
  filter_priceLevel :: "int option"
  filter_dietary :: "string option"
  filter_amenity :: "string option"

text \<open>An element of the result: \<^verbatim>\<open>{...data, searchScore: score}\<close>.\<close>

record SearchResult =
  data :: GeneratedRestaurantData
  searchScore :: int

section \<open>Entity extraction: extractSearchFilters (src/agents/enhanced-concierge.ts)\<close>

text \<open>
  The local tables \<^verbatim>\<open>cuisines\<close> and \<^verbatim>\<open>dietaryOptions\<close> of the source are
  \<open>cuisineNames\<close> and \<open>dietaryOptionNames\<close> here. A field the source leaves unset is
  \<^const>\<open>None\<close>.
\<close>

definition cuisineNames :: "string list" where
  "cuisineNames = [''italian'', ''chinese'', ''japanese'', ''mexican'', ''indian'', ''thai'',
     ''french'', ''american'', ''mediterranean'', ''korean'']"

definition dietaryOptionNames :: "string list" where
  "dietaryOptionNames = [''vegetarian'', ''vegan'', ''gluten-free'', ''halal'', ''kosher'',
     ''dairy-free'', ''nut-free'']"

definition detectPriceLevel :: "string \<Rightarrow> int option" where
  "detectPriceLevel queryLower =
     (if str_includes queryLower ''cheap'' \<or> str_includes queryLower ''budget''
         \<or> str_includes queryLower ''affordable'' then Some 1
      else if str_includes queryLower ''expensive'' \<or> str_includes queryLower ''upscale''
         \<or> str_includes queryLower ''fine dining'' then Some 4
      else if str_includes queryLower ''mid-range'' \<or> str_includes queryLower ''moderate''
         then Some 2
      else None)"

definition detectAmenity :: "string \<Rightarrow> string option" where
  "detectAmenity queryLower =
     (if str_includes queryLower ''outdoor'' \<or> str_includes queryLower ''patio''
        then Some ''outdoor_seating''
      else if str_includes queryLower ''delivery'' then Some ''delivery''
      else if str_includes queryLower ''takeout'' then Some ''takeout''
      else if str_includes queryLower ''parking'' then Some ''parking''
      else None)"

definition extractSearchFilters :: "string \<Rightarrow> SearchFilters" where
  "extractSearchFilters messageText =
     (let queryLower = toLowerCase messageText in
      \<lparr> filter_cuisine = find (\<lambda>c. str_includes queryLower c) cuisineNames,
        filter_priceLevel = detectPriceLevel queryLower,
        filter_dietary = find (\<lambda>d. str_includes queryLower d) dietaryOptionNames,
        filter_amenity = detectAmenity queryLower \<rparr>)"

section \<open>Matching and ranking: searchRestaurants (src/agents/enhanced-concierge.ts)\<close>

text \<open>
  Each filter is guarded by the truthiness of its field (\<^verbatim>\<open>filters.cuisine && ...\<close>):
  \<^verbatim>\<open>undefined\<close>, the empty string and the number 0 are falsy. For a string field this is
  \<open>truthyString\<close>; the filters below write the test out.
\<close>

definition truthyString :: "string option \<Rightarrow> bool" where
  "truthyString v = (case v of None \<Rightarrow> False | Some s \<Rightarrow> s \<noteq> [])"

text \<open>\<^verbatim>\<open>x || []\<close> on an optional array.\<close>

definition orEmpty :: "'a list option \<Rightarrow> 'a list" where
  "orEmpty v = (case v of None \<Rightarrow> [] | Some xs \<Rightarrow> xs)"

text \<open>The four keyword tests of the loop body, on the lower-cased query.\<close>

definition nameMatch :: "string \<Rightarrow> string \<Rightarrow> bool" where
  "nameMatch queryLower nm = (str_includes nm queryLower \<or> str_includes queryLower nm)"

definition cuisineMatch :: "string \<Rightarrow> Restaurant \<Rightarrow> bool" where
  "cuisineMatch queryLower r =
     (\<exists>c \<in> set (cuisine r). str_includes queryLower c \<or> str_includes c (firstWord queryLower))"

definition dishMatch :: "string \<Rightarrow> GeneratedRestaurantData \<Rightarrow> bool" where
  "dishMatch queryLower d =
     (\<exists>dish \<in> set (orEmpty (popularDishes d)). str_includes queryLower (toLowerCase dish))"

definition featureMatch :: "string \<Rightarrow> GeneratedRestaurantData \<Rightarrow> bool" where
  "featureMatch queryLower d =
     (\<exists>feature \<in> set (orEmpty (specialFeatures d)). str_includes queryLower (toLowerCase feature))"

text \<open>
  The loop body keeps two mutable locals, \<^verbatim>\<open>matches\<close> and \<^verbatim>\<open>score\<close>; they are the
  pair threaded through the steps below, in the order of the source.
\<close>

type_synonym matchState = "bool \<times> int"

definition keywordStage :: "string \<Rightarrow> string \<Rightarrow> GeneratedRestaurantData \<Rightarrow> matchState" where
  "keywordStage queryLower nm d =
     (let st = (False, 0);
          st = (if nameMatch queryLower nm then (True, snd st + 10) else st);
          st = (if cuisineMatch queryLower (restaurant d) then (True, snd st + 8) else st);
          st = (if dishMatch queryLower d then (True, snd st + 6) else st);
          st = (if featureMatch queryLower d then (True, snd st + 4) else st)
      in st)"

definition cuisineFilter :: "SearchFilters \<Rightarrow> Restaurant \<Rightarrow> matchState \<Rightarrow> matchState" where
  "cuisineFilter filters r st =
     (case filter_cuisine filters of
        Some c \<Rightarrow> if c \<noteq> [] \<and> toLowerCase c \<notin> set (cuisine r) then (False, snd st) else st
      | None \<Rightarrow> st)"

definition priceFilter :: "SearchFilters \<Rightarrow> Restaurant \<Rightarrow> matchState \<Rightarrow> matchState" where
  "priceFilter filters r st =
     (case filter_priceLevel filters of
        Some p \<Rightarrow> if p \<noteq> 0 \<and> priceLevel r \<noteq> p then (False, snd st) else st
      | None \<Rightarrow> st)"

text \<open>
  The dietary filter is guarded by \<^verbatim>\<open>filters.dietary && restaurant.dietaryOptions\<close>; the
  second operand is the required array of \<^verbatim>\<open>Restaurant\<close>, and an array is truthy even
  when empty.
\<close>

definition hasDietary :: "Restaurant \<Rightarrow> string \<Rightarrow> bool" where
  "hasDietary r t = (\<exists>opt \<in> set (dietaryOptions r). otype opt = t \<and> available opt)"

definition dietaryFilter :: "SearchFilters \<Rightarrow> Restaurant \<Rightarrow> matchState \<Rightarrow> matchState" where
  "dietaryFilter filters r st =
     (case filter_dietary filters of
        Some t \<Rightarrow> if t \<noteq> [] then (if \<not> hasDietary r t then (False, snd st) else (fst st, snd st + 5))
                  else st
      | None \<Rightarrow> st)"

text \<open>
  In \<^verbatim>\<open>filters.amenity?.replace('_', ' ') || ''\<close> the alternative is never taken: the
  test runs only for a non-empty amenity, and the replacement keeps its length.
\<close>

definition hasAmenity :: "string list \<Rightarrow> string \<Rightarrow> bool" where
  "hasAmenity features a =
     (\<exists>feature \<in> set features. str_includes (toLowerCase feature) (replaceUnderscore a))"

definition amenityFilter :: "SearchFilters \<Rightarrow> GeneratedRestaurantData \<Rightarrow> matchState \<Rightarrow> matchState" where
  "amenityFilter filters d st =
     (case filter_amenity filters of
        Some a \<Rightarrow>
          if a \<noteq> [] then
            (case specialFeatures d of
               Some features \<Rightarrow>
                 if \<not> hasAmenity features a then (False, snd st) else (fst st, snd st + 3)
             | None \<Rightarrow> st)
          else st
      | None \<Rightarrow> st)"

text \<open>The block \<^verbatim>\<open>if (matches) { ... }\<close>: the filters run only on a keyword match.\<close>

definition filterStage :: "SearchFilters \<Rightarrow> GeneratedRestaurantData \<Rightarrow> matchState \<Rightarrow> matchState" where
  "filterStage filters d st =
     (if fst st then
        amenityFilter filters d
          (dietaryFilter filters (restaurant d)
            (priceFilter filters (restaurant d)
              (cuisineFilter filters (restaurant d) st)))
      else st)"

text \<open>One iteration of the loop: the entry is pushed, with its score, when \<^verbatim>\<open>matches\<close>.\<close>

definition scoreEntry ::
  "string \<Rightarrow> SearchFilters \<Rightarrow> string \<times> GeneratedRestaurantData \<Rightarrow> SearchResult option" where
  "scoreEntry queryLower filters e =
     (let st = filterStage filters (snd e) (keywordStage queryLower (fst e) (snd e))
      in if fst st then Some \<lparr> data = snd e, searchScore = snd st \<rparr> else None)"

text \<open>
  The loop over \<^verbatim>\<open>restaurantCache.entries()\<close>: a \<^verbatim>\<open>Map\<close> iterates in insertion order,
  so the cache is the list of its (key, value) entries in that order.
\<close>

definition searchMatches ::
  "(string \<times> GeneratedRestaurantData) list \<Rightarrow> string \<Rightarrow> SearchFilters \<Rightarrow> SearchResult list" where
  "searchMatches cache query filters =
     List.map_filter (scoreEntry (toLowerCase query) filters) cache"

text \<open>
  \<^verbatim>\<open>Array.prototype.sort\<close> with a comparator is a stable sort; it is modelled as a stable
  insertion sort that places \<open>x\<close> before the first \<open>y\<close> with \<open>cmp x y \<le> 0\<close>.
\<close>

fun insertBy :: "('a \<Rightarrow> 'a \<Rightarrow> rat) \<Rightarrow> 'a \<Rightarrow> 'a list \<Rightarrow> 'a list" where
  "insertBy cmp x [] = [x]"
| "insertBy cmp x (y # ys) = (if cmp x y \<le> 0 then x # y # ys else y # insertBy cmp x ys)"

definition sortBy :: "('a \<Rightarrow> 'a \<Rightarrow> rat) \<Rightarrow> 'a list \<Rightarrow> 'a list" where
  "sortBy cmp xs = foldr (insertBy cmp) xs []"

definition compareResults :: "SearchResult \<Rightarrow> SearchResult \<Rightarrow> rat" where
  "compareResults a b =
     (if searchScore a \<noteq> searchScore b then of_int (searchScore b - searchScore a)
      else rating (restaurant (data b)) - rating (restaurant (data a)))"

definition searchRestaurants ::
  "(string \<times> GeneratedRestaurantData) list \<Rightarrow> string \<Rightarrow> SearchFilters \<Rightarrow> SearchResult list" where
  "searchRestaurants cache query filters = sortBy compareResults (searchMatches cache query filters)"

section \<open>Dietary compatibility: analyzeRestaurantCompatibility (src/utils/dietary-restrictions.ts)\<close>

text \<open>
  The warnings and recommendations are template strings. Each template is a constructor of
  \<open>message\<close> that carries the values interpolated into it:
  \<^item> \<open>NoRestrictions\<close>: "No dietary restrictions specified - all options should be available";
  \<^item> \<open>OptionsAvailable n\<close>: "\<open>n\<close> options available";
  \<^item> \<open>LimitedOptions n\<close>: "Limited \<open>n\<close> options may be available";
  \<^item> \<open>DietIncludes p cs\<close>: "Note: \<open>p\<close> diet includes \<open>cs\<close> restrictions";
  \<^item> \<open>CuisineExcellent c n\<close>: "\<open>c\<close> cuisine is excellent for \<open>n\<close> diets";
  \<^item> \<open>CuisineGood c n\<close>: "\<open>c\<close> cuisine has good \<open>n\<close> options";
  \<^item> \<open>CuisineLimited c n\<close>: "\<open>c\<close> cuisine may have limited \<open>n\<close> options";
  \<^item> \<open>AllergyRisk c rs\<close>: "\<open>c\<close> cuisine commonly uses \<open>rs\<close> - please inform restaurant of allergies";
  \<^item> \<open>ExtensiveOptions\<close>: "Restaurant has extensive dietary accommodation options".
\<close>

datatype message =
    NoRestrictions
  | OptionsAvailable string
  | LimitedOptions string
  | DietIncludes string "string list"
  | CuisineExcellent string string
  | CuisineGood string string
  | CuisineLimited string string
  | AllergyRisk string "string list"
  | ExtensiveOptions

record DietaryAnalysis =
  compatible :: bool
  score :: int
  warnings :: "message list"
  recommendations :: "message list"
  compatibleOptions :: "string list"
  incompatibleOptions :: "string list"

text \<open>
  The rule tables are object literals read with \<^verbatim>\<open>table[key]\<close>. They are association lists
  in declaration order, read with \<^const>\<open>map_of\<close>: a key the table does not declare gives
  \<^verbatim>\<open>undefined\<close>, here \<^const>\<open>None\<close>. The members an object literal inherits from
  \<^verbatim>\<open>Object.prototype\<close> (the keys \<^verbatim>\<open>constructor\<close> and \<^verbatim>\<open>__proto__\<close>) are not part
  of this model: tags are taken not to be these two words.
\<close>

definition displayNames :: "(string \<times> string) list" where
  "displayNames =
     [(''vegetarian'', ''Vegetarian''), (''vegan'', ''Vegan''), (''gluten-free'', ''Gluten-Free''),
      (''dairy-free'', ''Dairy-Free''), (''nut-free'', ''Nut-Free''),
      (''shellfish-free'', ''Shellfish-Free''), (''halal'', ''Halal''), (''kosher'', ''Kosher''),
      (''keto'', ''Keto/Ketogenic''), (''paleo'', ''Paleo''), (''low-carb'', ''Low-Carb''),
      (''diabetic-friendly'', ''Diabetic-Friendly'')]"

definition getRestrictionDisplayName :: "string \<Rightarrow> string" where
  "getRestrictionDisplayName restriction =
     (case map_of displayNames restriction of Some n \<Rightarrow> n | None \<Rightarrow> restriction)"

definition critical :: "string list" where
  "critical = [''vegan'', ''gluten-free'', ''nut-free'', ''shellfish-free'', ''halal'', ''kosher'']"

definition isCriticalRestriction :: "string \<Rightarrow> bool" where
  "isCriticalRestriction restriction = (restriction \<in> set critical)"

text \<open>
  \<^verbatim>\<open>restaurant.dietaryOptions.find(opt => opt.type === restriction)?.available\<close>: the
  availability of the first entry of that type, falsy when there is none.
\<close>

definition optionAvailable :: "Restaurant \<Rightarrow> string \<Rightarrow> bool" where
  "optionAvailable r restriction =
     (case find (\<lambda>opt. otype opt = restriction) (dietaryOptions r) of
        Some opt \<Rightarrow> available opt
      | None \<Rightarrow> False)"

text \<open>The body of the loop over \<^verbatim>\<open>userRestrictions\<close>.\<close>

definition restrictionStep :: "Restaurant \<Rightarrow> string \<Rightarrow> DietaryAnalysis \<Rightarrow> DietaryAnalysis" where
  "restrictionStep r restriction analysis =
     (if optionAvailable r restriction then
        analysis\<lparr> compatibleOptions := compatibleOptions analysis @ [restriction],
                  recommendations := recommendations analysis
                    @ [OptionsAvailable (getRestrictionDisplayName restriction)] \<rparr>
      else
        (let analysis = analysis\<lparr> incompatibleOptions := incompatibleOptions analysis @ [restriction],
                                  score := score analysis - 30,
                                  warnings := warnings analysis
                                    @ [LimitedOptions (getRestrictionDisplayName restriction)] \<rparr>
         in if isCriticalRestriction restriction
            then analysis\<lparr> compatible := False, score := score analysis - 20 \<rparr>
            else analysis))"

definition conflicts :: "(string \<times> string list) list" where
  "conflicts = [(''vegan'', [''vegetarian'']), (''keto'', [''low-carb'']), (''paleo'', [''gluten-free''])]"

definition conflictStep :: "string list \<Rightarrow> string \<times> string list \<Rightarrow> DietaryAnalysis \<Rightarrow> DietaryAnalysis" where
  "conflictStep restrictions entry analysis =
     (if fst entry \<in> set restrictions \<and> (\<exists>c \<in> set (snd entry). c \<in> set restrictions)
      then analysis\<lparr> recommendations := recommendations analysis
                        @ [DietIncludes (fst entry) (snd entry)] \<rparr>
      else analysis)"

definition checkConflictingRestrictions :: "string list \<Rightarrow> DietaryAnalysis \<Rightarrow> DietaryAnalysis" where
  "checkConflictingRestrictions restrictions analysis =
     fold (conflictStep restrictions) conflicts analysis"

definition cuisineCompatibility :: "(string \<times> (string \<times> int) list) list" where
  "cuisineCompatibility =
     [(''indian'', [(''vegetarian'', 90), (''vegan'', 70), (''gluten-free'', 60),
                    (''dairy-free'', 40), (''halal'', 80)]),
      (''mediterranean'', [(''vegetarian'', 85), (''vegan'', 65), (''gluten-free'', 70),
                           (''dairy-free'', 60), (''halal'', 70)]),
      (''japanese'', [(''vegetarian'', 60), (''vegan'', 50), (''gluten-free'', 40),
                      (''dairy-free'', 80), (''shellfish-free'', 30)]),
      (''italian'', [(''vegetarian'', 75), (''vegan'', 55), (''gluten-free'', 40),
                     (''dairy-free'', 35)]),
      (''mexican'', [(''vegetarian'', 70), (''vegan'', 60), (''gluten-free'', 50),
                     (''dairy-free'', 45), (''halal'', 60)]),
      (''chinese'', [(''vegetarian'', 80), (''vegan'', 70), (''gluten-free'', 45),
                     (''dairy-free'', 75), (''halal'', 50)])]"

definition cuisineRestrictionStep ::
  "string \<Rightarrow> (string \<times> int) list \<Rightarrow> string \<Rightarrow> DietaryAnalysis \<Rightarrow> DietaryAnalysis" where
  "cuisineRestrictionStep c compatibility restriction analysis =
     (case map_of compatibility restriction of
        Some s \<Rightarrow>
          if s \<ge> 80 then
            analysis\<lparr> recommendations := recommendations analysis
                        @ [CuisineExcellent c (getRestrictionDisplayName restriction)] \<rparr>
          else if s \<ge> 60 then
            analysis\<lparr> recommendations := recommendations analysis
                        @ [CuisineGood c (getRestrictionDisplayName restriction)] \<rparr>
          else if s < 40 then
            analysis\<lparr> warnings := warnings analysis
                        @ [CuisineLimited c (getRestrictionDisplayName restriction)] \<rparr>
          else analysis
      | None \<Rightarrow> analysis)"

definition cuisineStep :: "string list \<Rightarrow> string \<Rightarrow> DietaryAnalysis \<Rightarrow> DietaryAnalysis" where
  "cuisineStep restrictions c analysis =
     (case map_of cuisineCompatibility (toLowerCase c) of
        Some compatibility \<Rightarrow> fold (cuisineRestrictionStep c compatibility) restrictions analysis
      | None \<Rightarrow> analysis)"

definition analyzeCuisineCompatibility ::
  "string list \<Rightarrow> string list \<Rightarrow> DietaryAnalysis \<Rightarrow> DietaryAnalysis" where
  "analyzeCuisineCompatibility cs restrictions analysis = fold (cuisineStep restrictions) cs analysis"

definition cuisineAllergyRisks :: "(string \<times> string list) list" where
  "cuisineAllergyRisks =
     [(''asian'', [''soy'', ''sesame'', ''shellfish'', ''fish'']),
      (''japanese'', [''fish'', ''shellfish'', ''soy'']),
      (''chinese'', [''soy'', ''sesame'', ''shellfish'', ''nuts'']),
      (''thai'', [''shellfish'', ''fish'', ''nuts'']),
      (''indian'', [''nuts'', ''dairy'']),
      (''mediterranean'', [''nuts'', ''fish'', ''sesame'']),
      (''middle_eastern'', [''sesame'', ''nuts'']),
      (''italian'', [''eggs'', ''dairy''])]"

definition allergyStep :: "string list \<Rightarrow> string \<Rightarrow> DietaryAnalysis \<Rightarrow> DietaryAnalysis" where
  "allergyStep allergies c analysis =
     (case map_of cuisineAllergyRisks (toLowerCase c) of
        Some risks \<Rightarrow>
          (let matchingRisks =
                 filter (\<lambda>risk. \<exists>allergy \<in> set allergies. str_includes (toLowerCase allergy) risk) risks
           in if length matchingRisks > 0
              then analysis\<lparr> warnings := warnings analysis @ [AllergyRisk c matchingRisks],
                             score := score analysis - 10 \<rparr>
              else analysis)
      | None \<Rightarrow> analysis)"

definition checkAllergyWarnings :: "Restaurant \<Rightarrow> string list \<Rightarrow> DietaryAnalysis \<Rightarrow> DietaryAnalysis" where
  "checkAllergyWarnings r allergies analysis = fold (allergyStep allergies) (cuisine r) analysis"

definition extensiveBonus :: "Restaurant \<Rightarrow> DietaryAnalysis \<Rightarrow> DietaryAnalysis" where
  "extensiveBonus r analysis =
     (if length (filter available (dietaryOptions r)) > 5
      then analysis\<lparr> score := score analysis + 10,
                     recommendations := recommendations analysis @ [ExtensiveOptions] \<rparr>
      else analysis)"

definition analyzeRestaurantCompatibility ::
  "Restaurant \<Rightarrow> string list \<Rightarrow> string list \<Rightarrow> DietaryAnalysis" where
  "analyzeRestaurantCompatibility r userRestrictions userAllergies =
     (let analysis = \<lparr> compatible = True, score = 100, warnings = [], recommendations = [],
                        compatibleOptions = [], incompatibleOptions = [] \<rparr>
      in if userRestrictions = [] \<and> userAllergies = []
         then analysis\<lparr> recommendations := recommendations analysis @ [NoRestrictions] \<rparr>
         else
           (let analysis = fold (restrictionStep r) userRestrictions analysis;
                analysis = checkConflictingRestrictions userRestrictions analysis;
                analysis = analyzeCuisineCompatibility (cuisine r) userRestrictions analysis;
                analysis = checkAllergyWarnings r userAllergies analysis;
                analysis = extensiveBonus r analysis
            in analysis\<lparr> score := max 0 (min 100 (score analysis)) \<rparr>))"

section \<open>Attribute inference (src/generators/restaurant-generator.ts)\<close>

text \<open>
  The result of \<^verbatim>\<open>analyzeRestaurantName\<close>. Its fields \<^verbatim>\<open>priceLevel\<close> and
  \<^verbatim>\<open>confidence\<close> carry the prefix \<open>name\<close> here, the plain names being fields of the
  records above. Decimal literals (4.5, 1.3) are exact rationals.
\<close>

record NameAnalysis =
  cuisines :: "string list"
  restaurantType :: string
  namePriceLevel :: int
  expectedQuality :: rat
  nameConfidence :: int

definition cuisineIndicators :: "(string \<times> string list) list" where
  "cuisineIndicators =
     [(''italian'', [''pizza'', ''pasta'', ''giovanni'', ''mario'', ''luigi'', ''bella'', ''roma'',
                     ''milano'', ''trattoria'', ''osteria'', ''ristorante'']),
      (''chinese'', [''dragon'', ''golden'', ''panda'', ''wok'', ''china'', ''beijing'', ''shanghai'',
                     ''szechuan'', ''hunan'']),
      (''mexican'', [''casa'', ''el'', ''la'', ''taco'', ''burrito'', ''cantina'', ''fiesta'', ''sol'',
                     ''maria'', ''jose'']),
      (''japanese'', [''sushi'', ''ramen'', ''hibachi'', ''sake'', ''tokyo'', ''osaka'', ''zen'',
                      ''mizu'', ''hana'']),
      (''indian'', [''taj'', ''curry'', ''masala'', ''tandoor'', ''spice'', ''mumbai'', ''delhi'',
                    ''punjab'']),
      (''thai'', [''thai'', ''bangkok'', ''pad'', ''som'', ''tom'', ''green'', ''red'', ''basil'']),
      (''french'', [''cafe'', ''bistro'', ''brasserie'', ''le'', ''la'', ''chez'', ''paris'', ''lyon'']),
      (''american'', [''grill'', ''diner'', ''tavern'', ''pub'', ''kitchen'', ''house'', ''bar'',
                      ''steakhouse'']),
      (''mediterranean'', [''olive'', ''mediterranean'', ''greco'', ''cyprus'', ''athens'',
                           ''santorini'']),
      (''korean'', [''kim'', ''seoul'', ''korean'', ''bbq'', ''bulgogi'', ''kimchi''])]"

text \<open>
  The cuisine loop stops at the first table entry one of whose indicators occurs in the
  lower-cased name (\<^verbatim>\<open>break\<close>); the entry found, if any, is
  \<open>find (indicatorsMatch nameLower) cuisineIndicators\<close>.
\<close>

definition indicatorsMatch :: "string \<Rightarrow> string \<times> string list \<Rightarrow> bool" where
  "indicatorsMatch nameLower entry = (\<exists>indicator \<in> set (snd entry). str_includes nameLower indicator)"

definition analyzeRestaurantName :: "string \<Rightarrow> NameAnalysis" where
  "analyzeRestaurantName nm =
     (let nameLower = toLowerCase nm;
          cs = [];
          conf = 75;
          (cs, conf) = (case find (indicatorsMatch nameLower) cuisineIndicators of
                          Some entry \<Rightarrow> (cs @ [fst entry], conf + 10)
                        | None \<Rightarrow> (cs, conf));
          (cs, conf) = (if length cs = 0 then (cs @ [''american''], conf - 20) else (cs, conf));
          (ty, pl, q) =
            (if str_includes nameLower ''fine'' \<or> str_includes nameLower ''fine dining''
                \<or> str_includes nameLower ''prime'' then (''fine_dining'', 4, 4.5)
             else if str_includes nameLower ''fast'' \<or> str_includes nameLower ''quick''
                \<or> str_includes nameLower ''express'' then (''fast_casual'', 1, 3.5)
             else if str_includes nameLower ''cafe'' \<or> str_includes nameLower ''coffee''
                then (''cafe'', 2, 4.0)
             else if str_includes nameLower ''bar'' \<or> str_includes nameLower ''pub''
                \<or> str_includes nameLower ''tavern'' then (''bar_restaurant'', 2, 3.8)
             else (''casual_dining'', 2, 4.0))
      in \<lparr> cuisines = cs, restaurantType = ty, namePriceLevel = pl, expectedQuality = q,
           nameConfidence = min conf 95 \<rparr>)"

record LocationAnalysis =
  priceMultiplier :: rat
  locationStyle :: string

definition urbanIndicators :: "string list" where
  "urbanIndicators = [''downtown'', ''city center'', ''main st'', ''broadway'', ''avenue'', ''plaza'']"

definition upscaleIndicators :: "string list" where
  "upscaleIndicators = [''hills'', ''heights'', ''park'', ''gardens'', ''estates'']"

definition analyzeLocation :: "string \<Rightarrow> LocationAnalysis" where
  "analyzeLocation addr =
     (let addressLower = toLowerCase addr;
          loc = \<lparr> priceMultiplier = 1.0, locationStyle = ''suburban'' \<rparr>;
          loc = (if \<exists>indicator \<in> set urbanIndicators. str_includes addressLower indicator
                 then \<lparr> priceMultiplier = 1.3, locationStyle = ''urban'' \<rparr> else loc);
          loc = (if \<exists>indicator \<in> set upscaleIndicators. str_includes addressLower indicator
                 then \<lparr> priceMultiplier = 1.5, locationStyle = ''upscale'' \<rparr> else loc)
      in loc)"

subsection \<open>generateDietaryOptions\<close>

definition baseDietaryOptions :: "DietaryOption list" where
  "baseDietaryOptions =
     [\<lparr> otype = ''vegetarian'', available = True,
         onotes = Some ''Multiple vegetarian options available'' \<rparr>,
      \<lparr> otype = ''vegan'', available = False, onotes = None \<rparr>,
      \<lparr> otype = ''gluten-free'', available = False, onotes = None \<rparr>,
      \<lparr> otype = ''dairy-free'', available = False, onotes = None \<rparr>,
      \<lparr> otype = ''nut-free'', available = True,
         onotes = Some ''Can accommodate nut allergies with notice'' \<rparr>,
      \<lparr> otype = ''shellfish-free'', available = True, onotes = Some ''No shellfish in most dishes'' \<rparr>,
      \<lparr> otype = ''halal'', available = False, onotes = None \<rparr>,
      \<lparr> otype = ''kosher'', available = False, onotes = None \<rparr>,
      \<lparr> otype = ''keto'', available = False, onotes = None \<rparr>,
      \<lparr> otype = ''paleo'', available = False, onotes = None \<rparr>,
      \<lparr> otype = ''low-carb'', available = False, onotes = None \<rparr>,
      \<lparr> otype = ''diabetic-friendly'', available = True,
         onotes = Some ''Several lighter options available'' \<rparr>]"

text \<open>
  \<^verbatim>\<open>opts.find(opt => opt.type === t)!.available = v\<close> and the same for \<^verbatim>\<open>notes\<close>: the
  first entry of type \<open>t\<close> is updated in place. Without such an entry \<^verbatim>\<open>find\<close> gives
  \<^verbatim>\<open>undefined\<close> and the assignment throws a TypeError, here \<^const>\<open>None\<close>.
\<close>

fun updateFound ::
  "string \<Rightarrow> (DietaryOption \<Rightarrow> DietaryOption) \<Rightarrow> DietaryOption list \<Rightarrow> DietaryOption list option" where
  "updateFound t upd [] = None"
| "updateFound t upd (opt # opts) =
     (if otype opt = t then Some (upd opt # opts)
      else map_option ((#) opt) (updateFound t upd opts))"

definition setAvailableNotes :: "string \<Rightarrow> string \<Rightarrow> DietaryOption list \<Rightarrow> DietaryOption list option" where
  "setAvailableNotes t n opts =
     Option.bind (updateFound t (\<lambda>opt. opt\<lparr> available := True \<rparr>) opts)
       (updateFound t (\<lambda>opt. opt\<lparr> onotes := Some n \<rparr>))"

definition generateDietaryOptions :: "string list \<Rightarrow> DietaryOption list option" where
  "generateDietaryOptions cs =
     (let primaryCuisine = (case cs of [] \<Rightarrow> None | c # _ \<Rightarrow> Some c) in
      Option.bind
        (if primaryCuisine = Some ''indian'' \<or> primaryCuisine = Some ''mediterranean''
         then Option.bind (setAvailableNotes ''vegetarian'' ''Extensive vegetarian menu'' baseDietaryOptions)
                (setAvailableNotes ''vegan'' ''Several vegan dishes available'')
         else Some baseDietaryOptions)
        (\<lambda>opts. Option.bind
           (if primaryCuisine = Some ''japanese'' \<or> primaryCuisine = Some ''thai''
            then Option.bind (setAvailableNotes ''gluten-free'' ''Rice-based dishes available'' opts)
                   (setAvailableNotes ''dairy-free'' ''Many dishes naturally dairy-free'')
            else Some opts)
           (\<lambda>opts. if primaryCuisine = Some ''mexican'' \<or> primaryCuisine = Some ''mediterranean''
                   then setAvailableNotes ''halal'' ''Halal meat options available'' opts
                   else Some opts)))"

section \<open>Example catalog\<close>

text \<open>A catalog entry used by the concrete evaluations below; the cache key is the lower-cased name,
  as \<^verbatim>\<open>loadRestaurantData\<close> stores it.\<close>

definition marios :: GeneratedRestaurantData where
  "marios =
     \<lparr> restaurant =
         \<lparr> rid = ''generated_1'', name = ''Mario's Italian Bistro'', address = ''12 Main St'',
           phone = None, website = None, rating = 4.5, priceLevel = 1, cuisine = [''italian''],
           dietaryOptions = [\<lparr> otype = ''vegetarian'', available = True, onotes = None \<rparr>] \<rparr>,
       generatedFields = [], confidence = 85, popularDishes = None,
       specialFeatures = Some [''live music''] \<rparr>"

definition mariosCache :: "(string \<times> GeneratedRestaurantData) list" where
  "mariosCache = [(toLowerCase (name (restaurant marios)), marios)]"

definition noFilters :: SearchFilters where
  "noFilters = \<lparr> filter_cuisine = None, filter_priceLevel = None, filter_dietary = None,
                 filter_amenity = None \<rparr>"

section \<open>Properties of the matcher\<close>

subsection \<open>The stable sort\<close>

lemma set_insertBy: "set (insertBy cmp x ys) = insert x (set ys)"
  by (induction ys) auto

lemma set_sortBy: "set (sortBy cmp xs) = set xs"
  by (induction xs) (simp_all add: sortBy_def set_insertBy)

lemma sortBy_Cons: "sortBy cmp (x # xs) = insertBy cmp x (sortBy cmp xs)"
  by (simp add: sortBy_def)

lemma sorted_insertBy:
  assumes tr: "\<And>a b c. cmp a b \<le> 0 \<Longrightarrow> cmp b c \<le> 0 \<Longrightarrow> cmp a c \<le> 0"
      and tot: "\<And>a b. cmp a b \<le> 0 \<or> cmp b a \<le> 0"
      and srt: "sorted_wrt (\<lambda>a b. cmp a b \<le> 0) ys"
  shows "sorted_wrt (\<lambda>a b. cmp a b \<le> 0) (insertBy cmp x ys)"
  using srt
proof (induction ys)
  case Nil
  then show ?case by simp
next
  case (Cons y ys)
  show ?case
  proof (cases "cmp x y \<le> 0")
    case True
    with Cons.prems tr show ?thesis by auto
  next
    case False
    with tot have "cmp y x \<le> 0" by blast
    with False Cons show ?thesis by (auto simp: set_insertBy)
  qed
qed

lemma sorted_sortBy:
  assumes "\<And>a b c. cmp a b \<le> 0 \<Longrightarrow> cmp b c \<le> 0 \<Longrightarrow> cmp a c \<le> 0"
      and "\<And>a b. cmp a b \<le> 0 \<or> cmp b a \<le> 0"
  shows "sorted_wrt (\<lambda>a b. cmp a b \<le> 0) (sortBy cmp xs)"
proof (induction xs)
  case Nil
  show ?case by (simp add: sortBy_def)
next
  case (Cons x xs)
  then show ?case
    using sorted_insertBy [where cmp = cmp, OF assms] by (simp add: sortBy_Cons)
qed

lemma filter_insertBy:
  assumes "\<And>a b. P a \<Longrightarrow> P b \<Longrightarrow> cmp a b \<le> 0"
  shows "filter P (insertBy cmp x ys) = (if P x then x # filter P ys else filter P ys)"
  using assms by (induction ys) auto

lemma filter_sortBy:
  assumes "\<And>a b. P a \<Longrightarrow> P b \<Longrightarrow> cmp a b \<le> 0"
  shows "filter P (sortBy cmp xs) = filter P xs"
  by (induction xs) (simp_all add: sortBy_Cons filter_insertBy [where cmp = cmp, OF assms], simp add: sortBy_def)

lemma compareResults_le:
  "compareResults a b \<le> 0 \<longleftrightarrow>
     searchScore b < searchScore a \<or>
     (searchScore a = searchScore b \<and> rating (restaurant (data b)) \<le> rating (restaurant (data a)))"
  by (auto simp: compareResults_def)

subsection \<open>The loop body\<close>

lemma keywordStage_fst:
  "fst (keywordStage q n d) =
     (nameMatch q n \<or> cuisineMatch q (restaurant d) \<or> dishMatch q d \<or> featureMatch q d)"
  by (simp add: keywordStage_def Let_def)

lemma keywordStage_snd:
  "snd (keywordStage q n d) =
     (if nameMatch q n then 10 else 0) + (if cuisineMatch q (restaurant d) then 8 else 0)
     + (if dishMatch q d then 6 else 0) + (if featureMatch q d then 4 else 0)"
  by (simp add: keywordStage_def Let_def)

lemma keywordStage_ge4: "fst (keywordStage q n d) \<Longrightarrow> 4 \<le> snd (keywordStage q n d)"
  by (auto simp add: keywordStage_fst keywordStage_snd)

lemma cuisineFilter_fst:
  "fst (cuisineFilter f r st) =
     (fst st \<and> (\<forall>c. filter_cuisine f = Some c \<and> c \<noteq> [] \<longrightarrow> toLowerCase c \<in> set (cuisine r)))"
  by (simp add: cuisineFilter_def split: option.splits)

lemma cuisineFilter_snd: "snd (cuisineFilter f r st) = snd st"
  by (simp add: cuisineFilter_def split: option.splits)

lemma priceFilter_fst:
  "fst (priceFilter f r st) =
     (fst st \<and> (\<forall>p. filter_priceLevel f = Some p \<and> p \<noteq> 0 \<longrightarrow> priceLevel r = p))"
  by (simp add: priceFilter_def split: option.splits)

lemma priceFilter_snd: "snd (priceFilter f r st) = snd st"
  by (simp add: priceFilter_def split: option.splits)

lemma dietaryFilter_fst:
  "fst (dietaryFilter f r st) =
     (fst st \<and> (\<forall>t. filter_dietary f = Some t \<and> t \<noteq> [] \<longrightarrow> hasDietary r t))"
  by (simp add: dietaryFilter_def split: option.splits)

lemma dietaryFilter_snd:
  "fst (dietaryFilter f r st) \<Longrightarrow>
   snd (dietaryFilter f r st) = snd st + (if truthyString (filter_dietary f) then 5 else 0)"
  by (simp add: dietaryFilter_def truthyString_def split: option.splits if_splits)

lemma amenityFilter_fst:
  "fst (amenityFilter f d st) =
     (fst st \<and> (\<forall>a fs. filter_amenity f = Some a \<and> a \<noteq> [] \<and> specialFeatures d = Some fs
         \<longrightarrow> hasAmenity fs a))"
  by (simp add: amenityFilter_def split: option.splits)

lemma amenityFilter_snd:
  "fst (amenityFilter f d st) \<Longrightarrow>
   snd (amenityFilter f d st) =
     snd st + (if truthyString (filter_amenity f) \<and> specialFeatures d \<noteq> None then 3 else 0)"
  by (auto simp add: amenityFilter_def truthyString_def split: option.splits if_splits)

lemma filterStage_fst:
  "fst (filterStage f d st) =
     (fst st
      \<and> (\<forall>c. filter_cuisine f = Some c \<and> c \<noteq> [] \<longrightarrow> toLowerCase c \<in> set (cuisine (restaurant d)))
      \<and> (\<forall>p. filter_priceLevel f = Some p \<and> p \<noteq> 0 \<longrightarrow> priceLevel (restaurant d) = p)
      \<and> (\<forall>t. filter_dietary f = Some t \<and> t \<noteq> [] \<longrightarrow> hasDietary (restaurant d) t)
      \<and> (\<forall>a fs. filter_amenity f = Some a \<and> a \<noteq> [] \<and> specialFeatures d = Some fs
            \<longrightarrow> hasAmenity fs a))"
  unfolding filterStage_def
  by (simp add: amenityFilter_fst dietaryFilter_fst priceFilter_fst cuisineFilter_fst)

lemma filterStage_snd:
  assumes "fst (filterStage f d st)"
  shows "snd (filterStage f d st) =
     snd st + (if truthyString (filter_dietary f) then 5 else 0)
       + (if truthyString (filter_amenity f) \<and> specialFeatures d \<noteq> None then 3 else 0)"
proof -
  from assms have st: "fst st" by (simp add: filterStage_fst)
  with assms have a: "fst (amenityFilter f d
          (dietaryFilter f (restaurant d)
            (priceFilter f (restaurant d)
              (cuisineFilter f (restaurant d) st))))"
    by (simp add: filterStage_def)
  then have b: "fst (dietaryFilter f (restaurant d)
            (priceFilter f (restaurant d)
              (cuisineFilter f (restaurant d) st)))"
    by (simp add: amenityFilter_fst)
  show ?thesis
    using st by (simp add: filterStage_def amenityFilter_snd [OF a] dietaryFilter_snd [OF b]
        priceFilter_snd cuisineFilter_snd)
qed

lemma scoreEntry_Some:
  "scoreEntry q f e = Some x \<longleftrightarrow>
     fst (filterStage f (snd e) (keywordStage q (fst e) (snd e)))
     \<and> x = \<lparr> data = snd e, searchScore = snd (filterStage f (snd e) (keywordStage q (fst e) (snd e))) \<rparr>"
  by (auto simp: scoreEntry_def Let_def)

lemma set_map_filter_Some: "set (List.map_filter g xs) = {y. \<exists>x \<in> set xs. g x = Some y}"
  by (induction xs) (auto simp: map_filter_simps split: option.splits)

lemma set_searchMatches:
  "set (searchMatches cache query f) =
     {x. \<exists>e \<in> set cache. scoreEntry (toLowerCase query) f e = Some x}"
  by (simp add: searchMatches_def set_map_filter_Some)

lemma set_searchRestaurants:
  "set (searchRestaurants cache query f) =
     {x. \<exists>e \<in> set cache. scoreEntry (toLowerCase query) f e = Some x}"
  by (simp add: searchRestaurants_def set_sortBy set_searchMatches)

subsection \<open>Hard filters\<close>




subsection \<open>Price-only queries\<close>

text \<open>
  Claim C4, as the code has it. With only \<open>filters.priceLevel\<close> requested, a restaurant is
  in the result exactly when its price tier equals the requested tier and the free text
  produced at least one name, cuisine, dish or feature keyword match for it; its score is then
  the accumulated keyword score, which is at least 4. The filters run only inside
  \<^verbatim>\<open>if (matches)\<close>, so a restaurant without a keyword match is never retained.
\<close>

theorem C4_price_only:
  assumes "filter_cuisine filters = None" and "filter_dietary filters = None"
      and "filter_amenity filters = None" and "filter_priceLevel filters = Some p" and "p \<noteq> 0"
  shows "(x \<in> set (searchRestaurants cache query filters) \<longleftrightarrow>
           (\<exists>e \<in> set cache.
              data x = snd e \<and> priceLevel (restaurant (snd e)) = p
              \<and> (nameMatch (toLowerCase query) (fst e)
                   \<or> cuisineMatch (toLowerCase query) (restaurant (snd e))
                   \<or> dishMatch (toLowerCase query) (snd e)
                   \<or> featureMatch (toLowerCase query) (snd e))
              \<and> searchScore x = snd (keywordStage (toLowerCase query) (fst e) (snd e))))
       \<and> (x \<in> set (searchRestaurants cache query filters) \<longrightarrow> 4 \<le> searchScore x)"
proof -
  have fst_eq: "fst (filterStage filters d st) = (fst st \<and> priceLevel (restaurant d) = p)" for d st
    using assms by (simp add: filterStage_fst)
  have snd_eq: "fst (filterStage filters d st) \<Longrightarrow> snd (filterStage filters d st) = snd st" for d st
    using assms by (simp add: filterStage_snd truthyString_def)
  have entry: "scoreEntry (toLowerCase query) filters e = Some x \<longleftrightarrow>
      data x = snd e \<and> priceLevel (restaurant (snd e)) = p
      \<and> fst (keywordStage (toLowerCase query) (fst e) (snd e))
      \<and> searchScore x = snd (keywordStage (toLowerCase query) (fst e) (snd e))" for e
    using snd_eq [of "snd e" "keywordStage (toLowerCase query) (fst e) (snd e)"]
    by (cases x) (auto simp: scoreEntry_Some fst_eq)
  have iff: "x \<in> set (searchRestaurants cache query filters) \<longleftrightarrow>
           (\<exists>e \<in> set cache.
              data x = snd e \<and> priceLevel (restaurant (snd e)) = p
              \<and> fst (keywordStage (toLowerCase query) (fst e) (snd e))
              \<and> searchScore x = snd (keywordStage (toLowerCase query) (fst e) (snd e)))"
    by (simp add: set_searchRestaurants entry)
  have ge: "x \<in> set (searchRestaurants cache query filters) \<longrightarrow> 4 \<le> searchScore x"
    unfolding iff using keywordStage_ge4 by auto
  from iff ge show ?thesis by (simp add: keywordStage_fst)
qed

text \<open>
  The claim as written says that some price-only query retains a restaurant of the requested
  tier with score 0. No catalog, query and price-only filters do so.
\<close>

theorem C4_counterexample:
  "\<not> (\<exists>cache query filters p n d.
        filter_cuisine filters = None \<and> filter_dietary filters = None
        \<and> filter_amenity filters = None \<and> filter_priceLevel filters = Some p
        \<and> (n, d) \<in> set cache \<and> priceLevel (restaurant d) = p
        \<and> \<lparr> data = d, searchScore = 0 \<rparr> \<in> set (searchRestaurants cache query filters))"
proof -
  have "4 \<le> searchScore x" if "x \<in> set (searchRestaurants cache query filters)"
    for x cache query filters
  proof -
    from that obtain e where "scoreEntry (toLowerCase query) filters e = Some x"
      by (auto simp: set_searchRestaurants)
    then have m: "fst (filterStage filters (snd e) (keywordStage (toLowerCase query) (fst e) (snd e)))"
      and x: "searchScore x = snd (filterStage filters (snd e) (keywordStage (toLowerCase query) (fst e) (snd e)))"
      by (auto simp: scoreEntry_Some)
    from m have "fst (keywordStage (toLowerCase query) (fst e) (snd e))"
      by (simp add: filterStage_fst)
    then have "4 \<le> snd (keywordStage (toLowerCase query) (fst e) (snd e))"
      by (rule keywordStage_ge4)
    with x show ?thesis by (simp add: filterStage_snd [OF m])
  qed
  then show ?thesis by fastforce
qed

text \<open>
  The theorem at a concrete catalog: the query \<open>italian\<close> retains the restaurant with its
  keyword score, the query \<open>cheap\<close> (no keyword match) returns nothing although the
  price tier is the requested one.
\<close>

theorem C4_witness:
  "filter_cuisine (noFilters\<lparr> filter_priceLevel := Some 1 \<rparr>) = None
   \<and> filter_dietary (noFilters\<lparr> filter_priceLevel := Some 1 \<rparr>) = None
   \<and> filter_amenity (noFilters\<lparr> filter_priceLevel := Some 1 \<rparr>) = None
   \<and> filter_priceLevel (noFilters\<lparr> filter_priceLevel := Some 1 \<rparr>) = Some 1
   \<and> \<lparr> data = marios, searchScore = 18 \<rparr>
        \<in> set (searchRestaurants mariosCache ''italian'' (noFilters\<lparr> filter_priceLevel := Some 1 \<rparr>))
   \<and> searchRestaurants mariosCache ''cheap'' (noFilters\<lparr> filter_priceLevel := Some 1 \<rparr>) = []
   \<and> priceLevel (restaurant marios) = 1
   \<and> (4::int) \<le> searchScore \<lparr> data = marios, searchScore = 18 \<rparr>"
proof -
  let ?f = "noFilters\<lparr> filter_priceLevel := Some 1 \<rparr>"
  have a: "filter_cuisine ?f = None" "filter_dietary ?f = None" "filter_amenity ?f = None"
    "filter_priceLevel ?f = Some 1" "(1::int) \<noteq> 0"
    by (simp_all add: noFilters_def)
  have mem: "\<lparr> data = marios, searchScore = 18 \<rparr> \<in> set (searchRestaurants mariosCache ''italian'' ?f)"
    by code_simp
  have none: "searchRestaurants mariosCache ''cheap'' ?f = []"
    by code_simp
  have p: "priceLevel (restaurant marios) = 1" by (simp add: marios_def)
  from C4_price_only [OF a, of "\<lparr> data = marios, searchScore = 18 \<rparr>" mariosCache "''italian''"] mem
  have "(4::int) \<le> searchScore \<lparr> data = marios, searchScore = 18 \<rparr>" by blast
  with a mem none p show ?thesis by simp
qed

lemma scoreEntry_amenity:
  assumes "a \<noteq> []"
  shows "scoreEntry q (f\<lparr> filter_amenity := Some a \<rparr>) e =
     (case scoreEntry q (f\<lparr> filter_amenity := None \<rparr>) e of
        None \<Rightarrow> None
      | Some y \<Rightarrow>
          (case specialFeatures (snd e) of
             None \<Rightarrow> Some y
           | Some fs \<Rightarrow> if hasAmenity fs a then Some (y\<lparr> searchScore := searchScore y + 3 \<rparr>)
                        else None))"
  using assms
  by (simp add: scoreEntry_def filterStage_def amenityFilter_def dietaryFilter_def
      priceFilter_def cuisineFilter_def Let_def split: option.splits)

subsection \<open>The amenity filter\<close>

text \<open>
  Claim C5, as the code has it. A requested \<open>filters.amenity\<close> (a non-empty string) is a
  hard filter for every restaurant that has a \<open>specialFeatures\<close> list: the result with the
  amenity holds exactly the entries of the result without it whose restaurant either has no
  \<open>specialFeatures\<close> list (score unchanged) or exposes a feature string containing the
  amenity, its first underscore replaced by a blank (score + 3). A restaurant with a feature
  list and no matching feature is excluded.
\<close>

theorem C5_amenity_filter:
  assumes "a \<noteq> []"
  shows "x \<in> set (searchRestaurants cache query (filters\<lparr> filter_amenity := Some a \<rparr>)) \<longleftrightarrow>
     (\<exists>y \<in> set (searchRestaurants cache query (filters\<lparr> filter_amenity := None \<rparr>)).
        data x = data y \<and>
        (case specialFeatures (data y) of
           None \<Rightarrow> searchScore x = searchScore y
         | Some features \<Rightarrow>
             (\<exists>feature \<in> set features. str_includes (toLowerCase feature) (replaceUnderscore a))
             \<and> searchScore x = searchScore y + 3))"
proof -
  let ?q = "toLowerCase query"
  let ?fa = "filters\<lparr> filter_amenity := Some a \<rparr>"
  let ?fn = "filters\<lparr> filter_amenity := None \<rparr>"
  let ?ok = "\<lambda>y. case specialFeatures (data y) of
           None \<Rightarrow> searchScore x = searchScore y
         | Some features \<Rightarrow>
             (\<exists>feature \<in> set features. str_includes (toLowerCase feature) (replaceUnderscore a))
             \<and> searchScore x = searchScore y + 3"
  have d: "data y = snd e" if "scoreEntry q f e = Some y" for q f e y
    using that by (auto simp: scoreEntry_Some)
  show ?thesis
  proof
    assume "x \<in> set (searchRestaurants cache query ?fa)"
    then obtain e where e: "e \<in> set cache" and x: "scoreEntry ?q ?fa e = Some x"
      by (auto simp: set_searchRestaurants)
    from x obtain y where y: "scoreEntry ?q ?fn e = Some y"
      by (auto simp: scoreEntry_amenity [OF assms] split: option.splits)
    from x y d [OF y] have "data x = data y \<and> ?ok y"
      by (auto simp: scoreEntry_amenity [OF assms] hasAmenity_def split: option.splits if_splits)
    moreover from e y have "y \<in> set (searchRestaurants cache query ?fn)"
      by (auto simp: set_searchRestaurants)
    ultimately show "\<exists>y \<in> set (searchRestaurants cache query ?fn). data x = data y \<and> ?ok y"
      by blast
  next
    assume "\<exists>y \<in> set (searchRestaurants cache query ?fn). data x = data y \<and> ?ok y"
    then obtain y e where e: "e \<in> set cache" and y: "scoreEntry ?q ?fn e = Some y"
      and dx: "data x = data y" and ok: "?ok y"
      by (auto simp: set_searchRestaurants)
    from dx ok d [OF y] have "scoreEntry ?q ?fa e = Some x"
      by (cases x; cases y)
        (auto simp: scoreEntry_amenity [OF assms] y hasAmenity_def split: option.splits)
    with e show "x \<in> set (searchRestaurants cache query ?fa)"
      by (auto simp: set_searchRestaurants)
  qed
qed

text \<open>
  The claim as written says that an amenity mismatch never excludes a restaurant. The
  restaurant below is returned without the amenity filter and excluded with it.
\<close>

theorem C5_counterexample:
  "searchRestaurants mariosCache ''italian food'' (noFilters\<lparr> filter_amenity := Some ''parking'' \<rparr>) = []
   \<and> searchRestaurants mariosCache ''italian food'' noFilters = [\<lparr> data = marios, searchScore = 8 \<rparr>]"
  by code_simp

text \<open>The theorem at a concrete catalog: the amenity \<open>music\<close> matches the feature \<open>live music\<close>.\<close>

theorem C5_witness:
  "''music'' \<noteq> []
   \<and> \<lparr> data = marios, searchScore = 11 \<rparr>
        \<in> set (searchRestaurants mariosCache ''italian food'' (noFilters\<lparr> filter_amenity := Some ''music'' \<rparr>))
   \<and> \<lparr> data = marios, searchScore = 8 \<rparr>
        \<in> set (searchRestaurants mariosCache ''italian food'' (noFilters\<lparr> filter_amenity := None \<rparr>))"
proof -
  have ne: "''music'' \<noteq> []" by simp
  have y: "\<lparr> data = marios, searchScore = 8 \<rparr>
        \<in> set (searchRestaurants mariosCache ''italian food'' (noFilters\<lparr> filter_amenity := None \<rparr>))"
    by code_simp
  have ok: "data \<lparr> data = marios, searchScore = 11 \<rparr> = data \<lparr> data = marios, searchScore = 8 \<rparr> \<and>
     (case specialFeatures (data \<lparr> data = marios, searchScore = 8 \<rparr>) of
           None \<Rightarrow> searchScore \<lparr> data = marios, searchScore = 11 \<rparr> = searchScore \<lparr> data = marios, searchScore = 8 \<rparr>
         | Some features \<Rightarrow>
             (\<exists>feature \<in> set features. str_includes (toLowerCase feature) (replaceUnderscore ''music''))
             \<and> searchScore \<lparr> data = marios, searchScore = 11 \<rparr> = searchScore \<lparr> data = marios, searchScore = 8 \<rparr> + 3)"
    by code_simp
  from y ok have "\<lparr> data = marios, searchScore = 11 \<rparr>
        \<in> set (searchRestaurants mariosCache ''italian food'' (noFilters\<lparr> filter_amenity := Some ''music'' \<rparr>))"
    unfolding C5_amenity_filter [OF ne, of _ mariosCache "''italian food''" noFilters] by blast
  with ne y show ?thesis by simp
qed

subsection \<open>Ordering of the result\<close>

text \<open>
  Claim C6. The result of \<^verbatim>\<open>searchRestaurants\<close> is sorted by score, descending; entries of
  equal score are ordered by rating, descending; and the entries that agree in both score
  \<open>s\<close> and rating \<open>r\<close> appear in the order in which the loop over the catalog produced
  them, which is catalog insertion order.
\<close>

theorem C6_sorted_stable:
  "sorted_wrt
     (\<lambda>a b. searchScore b < searchScore a
            \<or> (searchScore a = searchScore b
                \<and> rating (restaurant (data b)) \<le> rating (restaurant (data a))))
     (searchRestaurants cache query filters)
   \<and> filter (\<lambda>x. searchScore x = s \<and> rating (restaurant (data x)) = r)
        (searchRestaurants cache query filters)
     = filter (\<lambda>x. searchScore x = s \<and> rating (restaurant (data x)) = r)
        (List.map_filter (scoreEntry (toLowerCase query) filters) cache)"
proof -
  have tr: "compareResults a b \<le> 0 \<Longrightarrow> compareResults b c \<le> 0 \<Longrightarrow> compareResults a c \<le> 0"
    for a b c
    unfolding compareResults_le by auto
  have tot: "compareResults a b \<le> 0 \<or> compareResults b a \<le> 0" for a b
    unfolding compareResults_le by auto
  have "sorted_wrt (\<lambda>a b. compareResults a b \<le> 0) (searchRestaurants cache query filters)"
    unfolding searchRestaurants_def by (rule sorted_sortBy [OF tr tot])
  then have srt: "sorted_wrt
     (\<lambda>a b. searchScore b < searchScore a
            \<or> (searchScore a = searchScore b
                \<and> rating (restaurant (data b)) \<le> rating (restaurant (data a))))
     (searchRestaurants cache query filters)"
    by (simp add: compareResults_le)
  have tie: "compareResults a b \<le> 0"
    if "searchScore a = s \<and> rating (restaurant (data a)) = r"
      and "searchScore b = s \<and> rating (restaurant (data b)) = r" for a b
    using that by (simp add: compareResults_le)
  have "filter (\<lambda>x. searchScore x = s \<and> rating (restaurant (data x)) = r)
        (searchRestaurants cache query filters)
     = filter (\<lambda>x. searchScore x = s \<and> rating (restaurant (data x)) = r)
        (searchMatches cache query filters)"
    unfolding searchRestaurants_def
    by (rule filter_sortBy) (rule tie)
  with srt show ?thesis by (simp add: searchMatches_def)
qed

subsection \<open>The scenario of the cheap vegetarian Italian restaurant\<close>

text \<open>
  Claim C7. For the text \<open>Find cheap vegetarian Italian restaurants\<close>,
  \<^verbatim>\<open>extractSearchFilters\<close> returns exactly cuisine \<open>italian\<close>, dietary \<open>vegetarian\<close>,
  price level 1 and no amenity; and for every catalog holding a restaurant named
  \<open>Mario's Italian Bistro\<close> with cuisine \<open>[italian]\<close>, price level 1 and an available
  vegetarian option, \<^verbatim>\<open>searchRestaurants\<close> on that text and those filters returns the
  restaurant with a strictly positive score.
\<close>

theorem C7_scenario:
  assumes "(n, d) \<in> set cache"
      and "name (restaurant d) = ''Mario's Italian Bistro''"
      and "cuisine (restaurant d) = [''italian'']"
      and "priceLevel (restaurant d) = 1"
      and "\<exists>opt \<in> set (dietaryOptions (restaurant d)). otype opt = ''vegetarian'' \<and> available opt"
  shows "extractSearchFilters ''Find cheap vegetarian Italian restaurants''
           = \<lparr> filter_cuisine = Some ''italian'', filter_priceLevel = Some 1,
               filter_dietary = Some ''vegetarian'', filter_amenity = None \<rparr>
       \<and> (\<exists>x \<in> set (searchRestaurants cache ''Find cheap vegetarian Italian restaurants''
                       (extractSearchFilters ''Find cheap vegetarian Italian restaurants'')).
             data x = d \<and> 0 < searchScore x)"
proof -
  let ?Q = "''Find cheap vegetarian Italian restaurants''"
  let ?q = "''find cheap vegetarian italian restaurants''"
  let ?f = "\<lparr> filter_cuisine = Some ''italian'', filter_priceLevel = Some 1,
               filter_dietary = Some ''vegetarian'', filter_amenity = None \<rparr>"
  have f: "extractSearchFilters ?Q = ?f" by code_simp
  have q: "toLowerCase ?Q = ?q" by code_simp
  have inc: "str_includes ?q ''italian''" by code_simp
  have low: "toLowerCase ''italian'' = ''italian''" by code_simp
  from inc assms(3) have cm: "cuisineMatch ?q (restaurant d)"
    by (simp add: cuisineMatch_def)
  then have k: "fst (keywordStage ?q n d)" by (simp add: keywordStage_fst)
  from assms have m: "fst (filterStage ?f d (keywordStage ?q n d))"
    by (simp add: filterStage_fst k low hasDietary_def)
  from k have "4 \<le> snd (keywordStage ?q n d)" by (rule keywordStage_ge4)
  then have pos: "0 < snd (filterStage ?f d (keywordStage ?q n d))"
    by (simp add: filterStage_snd [OF m] truthyString_def)
  from m have "scoreEntry ?q ?f (n, d)
      = Some \<lparr> data = d, searchScore = snd (filterStage ?f d (keywordStage ?q n d)) \<rparr>"
    by (simp add: scoreEntry_Some)
  with assms(1) have "\<lparr> data = d, searchScore = snd (filterStage ?f d (keywordStage ?q n d)) \<rparr>
      \<in> set (searchRestaurants cache ?Q ?f)"
    unfolding set_searchRestaurants q by blast
  with pos have "\<exists>x \<in> set (searchRestaurants cache ?Q ?f). data x = d \<and> 0 < searchScore x"
    by force
  with f show ?thesis by simp
qed

text \<open>The theorem at the one-entry catalog; the score there is 8 + 5.\<close>

theorem C7_witness:
  "(toLowerCase (name (restaurant marios)), marios) \<in> set mariosCache
   \<and> name (restaurant marios) = ''Mario's Italian Bistro''
   \<and> cuisine (restaurant marios) = [''italian'']
   \<and> priceLevel (restaurant marios) = 1
   \<and> searchRestaurants mariosCache ''Find cheap vegetarian Italian restaurants''
        (extractSearchFilters ''Find cheap vegetarian Italian restaurants'')
      = [\<lparr> data = marios, searchScore = 13 \<rparr>]
   \<and> (\<exists>x \<in> set (searchRestaurants mariosCache ''Find cheap vegetarian Italian restaurants''
                       (extractSearchFilters ''Find cheap vegetarian Italian restaurants'')).
             data x = marios \<and> 0 < searchScore x)"
proof -
  have a: "(toLowerCase (name (restaurant marios)), marios) \<in> set mariosCache"
    by (simp add: mariosCache_def)
  have b: "name (restaurant marios) = ''Mario's Italian Bistro''"
    "cuisine (restaurant marios) = [''italian'']" "priceLevel (restaurant marios) = 1"
    by (simp_all add: marios_def)
  have c: "\<exists>opt \<in> set (dietaryOptions (restaurant marios)). otype opt = ''vegetarian'' \<and> available opt"
    by (simp add: marios_def)
  have e: "searchRestaurants mariosCache ''Find cheap vegetarian Italian restaurants''
        (extractSearchFilters ''Find cheap vegetarian Italian restaurants'')
      = [\<lparr> data = marios, searchScore = 13 \<rparr>]"
    by code_simp
  from C7_scenario [OF a b c] a b e show ?thesis by blast
qed

section \<open>Properties of the dietary analyzer\<close>

subsection \<open>What each pass leaves unchanged\<close>


lemma fold_restrictionStep_incompatibleOptions:
  "incompatibleOptions (fold (restrictionStep r) rs a)
     = incompatibleOptions a @ filter (\<lambda>t. \<not> optionAvailable r t) rs"
  by (induction rs arbitrary: a) (simp_all add: restrictionStep_def Let_def)


lemma conflictStep_fields:
  "compatible (conflictStep rs e a) = compatible a"
  "compatibleOptions (conflictStep rs e a) = compatibleOptions a"
  "incompatibleOptions (conflictStep rs e a) = incompatibleOptions a"
  "score (conflictStep rs e a) = score a"
  by (simp_all add: conflictStep_def)

lemma checkConflictingRestrictions_fields:
  "compatible (checkConflictingRestrictions rs a) = compatible a"
  "compatibleOptions (checkConflictingRestrictions rs a) = compatibleOptions a"
  "incompatibleOptions (checkConflictingRestrictions rs a) = incompatibleOptions a"
  "score (checkConflictingRestrictions rs a) = score a"
  by (simp_all add: checkConflictingRestrictions_def conflicts_def conflictStep_fields)

lemma cuisineRestrictionStep_fields:
  "compatible (cuisineRestrictionStep c t rs a) = compatible a"
  "compatibleOptions (cuisineRestrictionStep c t rs a) = compatibleOptions a"
  "incompatibleOptions (cuisineRestrictionStep c t rs a) = incompatibleOptions a"
  "score (cuisineRestrictionStep c t rs a) = score a"
  by (simp_all add: cuisineRestrictionStep_def split: option.splits)

lemma fold_cuisineRestrictionStep_fields:
  "compatible (fold (cuisineRestrictionStep c t) rs a) = compatible a"
  "compatibleOptions (fold (cuisineRestrictionStep c t) rs a) = compatibleOptions a"
  "incompatibleOptions (fold (cuisineRestrictionStep c t) rs a) = incompatibleOptions a"
  "score (fold (cuisineRestrictionStep c t) rs a) = score a"
  by (induction rs arbitrary: a) (simp_all add: cuisineRestrictionStep_fields)

lemma cuisineStep_fields:
  "compatible (cuisineStep rs c a) = compatible a"
  "compatibleOptions (cuisineStep rs c a) = compatibleOptions a"
  "incompatibleOptions (cuisineStep rs c a) = incompatibleOptions a"
  "score (cuisineStep rs c a) = score a"
  by (simp_all add: cuisineStep_def fold_cuisineRestrictionStep_fields split: option.splits)

lemma analyzeCuisineCompatibility_fields:
  "compatible (analyzeCuisineCompatibility cs rs a) = compatible a"
  "compatibleOptions (analyzeCuisineCompatibility cs rs a) = compatibleOptions a"
  "incompatibleOptions (analyzeCuisineCompatibility cs rs a) = incompatibleOptions a"
  "score (analyzeCuisineCompatibility cs rs a) = score a"
  unfolding analyzeCuisineCompatibility_def
  by (induction cs arbitrary: a) (simp_all add: cuisineStep_fields)

lemma allergyStep_fields:
  "compatible (allergyStep al c a) = compatible a"
  "compatibleOptions (allergyStep al c a) = compatibleOptions a"
  "incompatibleOptions (allergyStep al c a) = incompatibleOptions a"
  by (simp_all add: allergyStep_def Let_def split: option.splits)

lemma checkAllergyWarnings_fields:
  "compatible (checkAllergyWarnings r al a) = compatible a"
  "compatibleOptions (checkAllergyWarnings r al a) = compatibleOptions a"
  "incompatibleOptions (checkAllergyWarnings r al a) = incompatibleOptions a"
proof -
  have "compatible (fold (allergyStep al) cs a) = compatible a
      \<and> compatibleOptions (fold (allergyStep al) cs a) = compatibleOptions a
      \<and> incompatibleOptions (fold (allergyStep al) cs a) = incompatibleOptions a" for cs
    by (induction cs arbitrary: a) (simp_all add: allergyStep_fields)
  then show "compatible (checkAllergyWarnings r al a) = compatible a"
    "compatibleOptions (checkAllergyWarnings r al a) = compatibleOptions a"
    "incompatibleOptions (checkAllergyWarnings r al a) = incompatibleOptions a"
    by (simp_all add: checkAllergyWarnings_def)
qed

lemma extensiveBonus_fields:
  "compatible (extensiveBonus r a) = compatible a"
  "compatibleOptions (extensiveBonus r a) = compatibleOptions a"
  "incompatibleOptions (extensiveBonus r a) = incompatibleOptions a"
  by (simp_all add: extensiveBonus_def)

lemmas pass_fields =
  checkConflictingRestrictions_fields analyzeCuisineCompatibility_fields
  checkAllergyWarnings_fields extensiveBonus_fields


lemma analyze_incompatibleOptions:
  "incompatibleOptions (analyzeRestaurantCompatibility r rs al)
     = filter (\<lambda>t. \<not> optionAvailable r t) rs"
  by (simp add: analyzeRestaurantCompatibility_def Let_def pass_fields
      fold_restrictionStep_incompatibleOptions)



subsection \<open>Critical restrictions\<close>



subsection \<open>The score\<close>


subsection \<open>The two option lists\<close>



section \<open>Properties of the attribute inference\<close>

lemma generateDietaryOptions_mono:
  "\<exists>opts. generateDietaryOptions cs = Some opts
     \<and> list_all2 (\<lambda>b opt. otype opt = otype b \<and> (available b \<longrightarrow> available opt))
          baseDietaryOptions opts"
  by (simp add: generateDietaryOptions_def setAvailableNotes_def baseDietaryOptions_def Let_def
      split: list.splits)

lemma mono_optionAvailable:
  assumes "list_all2 (\<lambda>b opt. otype opt = otype b \<and> (available b \<longrightarrow> available opt))
          baseDietaryOptions (dietaryOptions r)"
      and "t \<in> {''vegetarian'', ''nut-free'', ''shellfish-free'', ''diabetic-friendly''}"
  shows "optionAvailable r t"
  using assms
  by (auto simp: baseDietaryOptions_def list_all2_Cons1 optionAvailable_def)


subsection \<open>The scenario of Dragon Palace\<close>

text \<open>
  Claim C8. For the name \<open>Dragon Palace\<close> the inferred cuisine list is \<open>[chinese]\<close>: the
  indicator \<open>dragon\<close> occurs in the name, and \<open>chinese\<close> is the first of the table entries
  with a matching indicator (the later entries \<open>mexican\<close> and \<open>french\<close> match too). For the
  address \<open>456 Broadway\<close> the price multiplier is 1.3 and the style is urban; no upscale
  indicator occurs in the address.
\<close>

theorem C8_dragon_palace:
  "cuisines (analyzeRestaurantName ''Dragon Palace'') = [''chinese'']
   \<and> hd (cuisines (analyzeRestaurantName ''Dragon Palace'')) = ''chinese''
   \<and> str_includes (toLowerCase ''Dragon Palace'') ''dragon''
   \<and> map fst (filter (indicatorsMatch (toLowerCase ''Dragon Palace'')) cuisineIndicators)
       = [''chinese'', ''mexican'', ''french'']
   \<and> analyzeLocation ''456 Broadway'' = \<lparr> priceMultiplier = 1.3, locationStyle = ''urban'' \<rparr>
   \<and> \<not> (\<exists>indicator \<in> set upscaleIndicators. str_includes (toLowerCase ''456 Broadway'') indicator)"
  by code_simp

subsection \<open>Generated dietary options\<close>

text \<open>
  Claim C10. For every cuisine list \<^verbatim>\<open>generateDietaryOptions\<close> returns a list (no update
  misses its entry) that keeps the types of the base list and every \<open>available = true\<close> of
  it: adjustments only turn options on. The entries for vegetarian, nut-free, shellfish-free
  and diabetic-friendly exist and are available. Hence a restaurant record carrying these
  options passes the vegetarian dietary filter of \<^verbatim>\<open>searchRestaurants\<close>, and the analyzer
  never puts one of the four tags into \<open>incompatibleOptions\<close>.
\<close>

theorem C10_generated_options:
  "\<exists>opts. generateDietaryOptions cs = Some opts
     \<and> list_all2 (\<lambda>b opt. otype opt = otype b \<and> (available b \<longrightarrow> available opt))
          baseDietaryOptions opts
     \<and> (\<forall>t \<in> {''vegetarian'', ''nut-free'', ''shellfish-free'', ''diabetic-friendly''}.
          (\<exists>opt \<in> set opts. otype opt = t) \<and> (\<forall>opt \<in> set opts. otype opt = t \<longrightarrow> available opt))
     \<and> (\<forall>r. dietaryOptions r = opts \<longrightarrow>
          (\<forall>filters st. filter_dietary filters = Some ''vegetarian'' \<longrightarrow>
             fst (dietaryFilter filters r st) = fst st)
          \<and> (\<forall>t \<in> {''vegetarian'', ''nut-free'', ''shellfish-free'', ''diabetic-friendly''}.
               \<forall>userRestrictions userAllergies.
                 t \<notin> set (incompatibleOptions
                             (analyzeRestaurantCompatibility r userRestrictions userAllergies))))"
proof -
  let ?R = "\<lambda>b opt. otype opt = otype b \<and> (available b \<longrightarrow> available opt)"
  let ?four = "{''vegetarian'', ''nut-free'', ''shellfish-free'', ''diabetic-friendly''}"
  from generateDietaryOptions_mono [of cs] obtain opts
    where g: "generateDietaryOptions cs = Some opts" and m: "list_all2 ?R baseDietaryOptions opts"
    by blast
  have entries: "\<forall>t \<in> ?four.
      (\<exists>opt \<in> set opts. otype opt = t) \<and> (\<forall>opt \<in> set opts. otype opt = t \<longrightarrow> available opt)"
    using m by (auto simp: baseDietaryOptions_def list_all2_Cons1)
  have rest: "(\<forall>filters st. filter_dietary filters = Some ''vegetarian'' \<longrightarrow>
             fst (dietaryFilter filters r st) = fst st)
          \<and> (\<forall>t \<in> ?four. \<forall>userRestrictions userAllergies.
                 t \<notin> set (incompatibleOptions
                             (analyzeRestaurantCompatibility r userRestrictions userAllergies)))"
    if r: "dietaryOptions r = opts" for r
  proof -
    from entries r have "hasDietary r ''vegetarian''"
      by (auto simp: hasDietary_def)
    then have a: "\<forall>filters st. filter_dietary filters = Some ''vegetarian'' \<longrightarrow>
             fst (dietaryFilter filters r st) = fst st"
      by (simp add: dietaryFilter_fst)
    from m r have "optionAvailable r t" if "t \<in> ?four" for t
      using that mono_optionAvailable [of r t] by simp
    then have "\<forall>t \<in> ?four. \<forall>userRestrictions userAllergies.
                 t \<notin> set (incompatibleOptions
                             (analyzeRestaurantCompatibility r userRestrictions userAllergies))"
      by (simp add: analyze_incompatibleOptions)
    with a show ?thesis by blast
  qed
  from g m entries rest show ?thesis by blast
qed

text \<open>The theorem for a Mediterranean restaurant.\<close>

theorem C10_witness:
  "\<exists>opts. generateDietaryOptions [''mediterranean''] = Some opts
     \<and> length opts = 12
     \<and> filter_dietary (noFilters\<lparr> filter_dietary := Some ''vegetarian'' \<rparr>) = Some ''vegetarian''
     \<and> fst (dietaryFilter (noFilters\<lparr> filter_dietary := Some ''vegetarian'' \<rparr>)
              ((restaurant marios)\<lparr> dietaryOptions := opts \<rparr>) (True, 8))
     \<and> ''nut-free'' \<notin> set (incompatibleOptions
          (analyzeRestaurantCompatibility ((restaurant marios)\<lparr> dietaryOptions := opts \<rparr>)
             [''nut-free'', ''kosher''] [''nuts'']))"
proof -
  from C10_generated_options [of "[''mediterranean'']"] obtain opts
    where g: "generateDietaryOptions [''mediterranean''] = Some opts"
      and m: "list_all2 (\<lambda>b opt. otype opt = otype b \<and> (available b \<longrightarrow> available opt))
          baseDietaryOptions opts"
      and r: "\<forall>r. dietaryOptions r = opts \<longrightarrow>
          (\<forall>filters st. filter_dietary filters = Some ''vegetarian'' \<longrightarrow>
             fst (dietaryFilter filters r st) = fst st)
          \<and> (\<forall>t \<in> {''vegetarian'', ''nut-free'', ''shellfish-free'', ''diabetic-friendly''}.
               \<forall>userRestrictions userAllergies.
                 t \<notin> set (incompatibleOptions
                             (analyzeRestaurantCompatibility r userRestrictions userAllergies)))"
    by blast
  let ?r = "(restaurant marios)\<lparr> dietaryOptions := opts \<rparr>"
  let ?f = "noFilters\<lparr> filter_dietary := Some ''vegetarian'' \<rparr>"
  have d: "dietaryOptions ?r = opts" by simp
  have f: "filter_dietary ?f = Some ''vegetarian''" by simp
  from m have l: "length opts = 12"
    by (auto simp: baseDietaryOptions_def dest: list_all2_lengthD)
  from r d f have "fst (dietaryFilter ?f ?r (True, 8)) = fst (True, 8::int)" by blast
  moreover from r d have "''nut-free'' \<notin> set (incompatibleOptions
          (analyzeRestaurantCompatibility ?r [''nut-free'', ''kosher''] [''nuts'']))"
    by blast
  ultimately show ?thesis using g l f by simp
qed

end
